theory Spec2Isabelle
  imports Complex_Main "HOL-Library.Word"
begin

section \<open>The BME680/BSEC sensor reader: platform hooks of reader.c\<close>

text \<open>
  The file \<^verbatim>\<open>src/bsec/reader.c\<close> supplies the callbacks that the BSEC integration
  layer calls: \<^verbatim>\<open>bus_write\<close>, \<^verbatim>\<open>bus_read\<close>, \<^verbatim>\<open>sleeper\<close>,
  \<^verbatim>\<open>get_timestamp_us\<close>, \<^verbatim>\<open>output_ready\<close>, \<^verbatim>\<open>output_header\<close>,
  \<^verbatim>\<open>state_load\<close> and \<^verbatim>\<open>state_save\<close>. Each of them is a few lines of C around
  calls into the operating system. The embedding below passes the state of the outside
  world explicitly, takes the behaviour of the operating system (the I2C device, the file
  permissions, the wall clock) as a parameter, and makes the three ways a C function can
  end visible in its result: it returns, it calls \<^verbatim>\<open>exit\<close>, or it runs into undefined
  behaviour.
\<close>

subsection \<open>Machine types\<close>

type_synonym u8 = "8 word"
type_synonym u16 = "16 word"
type_synonym u32 = "32 word"
type_synonym s8 = "8 word"    \<comment> \<open>\<^verbatim>\<open>int8_t\<close>; read with \<open>sint\<close>\<close>

subsection \<open>How a call ends\<close>

text \<open>The kinds of undefined behaviour that the functions of this file can reach.\<close>

datatype ub =
    Null_stream           \<comment> \<open>\<^verbatim>\<open>fclose\<close> (or another stdio call) on a null \<^verbatim>\<open>FILE*\<close>\<close>
  | Out_of_bounds_read    \<comment> \<open>a load past the end of an array\<close>
  | Out_of_bounds_write   \<comment> \<open>a store past the end of an array\<close>
  | Uninitialised_read    \<comment> \<open>a load of an array element that was never written\<close>
  | Signed_overflow       \<comment> \<open>overflow of a signed 64-bit computation\<close>

datatype ('a, 'w) outcome =
    Returns 'a 'w         \<comment> \<open>normal return, with the value and the world afterwards\<close>
  | Exits int 'w          \<comment> \<open>\<^verbatim>\<open>exit(status)\<close>: the caller never gets control back\<close>
  | Undefined ub          \<comment> \<open>undefined behaviour (on Linux/glibc typically a crash)\<close>

subsection \<open>The world outside the process\<close>

datatype bus_event =
    Write_ev "u8 list"    \<comment> \<open>\<^verbatim>\<open>write(g_i2cFid, buf, n)\<close>: the \<open>n\<close> bytes offered to the bus\<close>
  | Read_ev nat           \<comment> \<open>\<^verbatim>\<open>read(g_i2cFid, buf, n)\<close>: the byte count asked for\<close>

datatype stderr_event =
    Perror string                 \<comment> \<open>\<^verbatim>\<open>perror(s)\<close>\<close>
  | Fprintf string "int list"     \<comment> \<open>\<^verbatim>\<open>fprintf(stderr, fmt, args...)\<close>\<close>

text \<open>
  A \<^verbatim>\<open>printf\<close> call on standard output: the format string and the floating-point
  arguments. The values of C's \<^verbatim>\<open>float\<close> and \<^verbatim>\<open>double\<close> are taken as real
  numbers; rounding is not modelled, since nothing below depends on it.
\<close>

datatype printf_call = Printf string "real list"

record timeval =
  tv_sec :: int
  tv_usec :: int

text \<open>
  The behaviour of the operating system, which the code cannot influence:
  what the I2C device answers to a write or a read given everything that happened on the
  bus before (\<open>None\<close> is the error return \<open>-1\<close>), which files may be created, written
  and read, what the wall clock shows at the \<open>n\<close>-th reading, and whether the program was
  compiled with \<^verbatim>\<open>-DDEBUG\<close>.
\<close>

record env =
  dev_write :: "bus_event list \<Rightarrow> u8 list \<Rightarrow> nat option"
  dev_read :: "bus_event list \<Rightarrow> nat \<Rightarrow> u8 list option"
  may_create :: "string \<Rightarrow> bool"
  may_write :: "string \<Rightarrow> bool"
  may_read :: "string \<Rightarrow> bool"
  wall_clock :: "nat \<Rightarrow> timeval"
  debug :: bool

record world =
  bus_trace :: "bus_event list"         \<comment> \<open>the transfers issued on the I2C bus, oldest first\<close>
  stderr :: "stderr_event list"         \<comment> \<open>what was written to standard error\<close>
  stdout :: "printf_call list"          \<comment> \<open>what was written to standard output\<close>
  files :: "string \<rightharpoonup> u8 list"           \<comment> \<open>the files that exist, with their contents\<close>
  clock_reads :: nat                    \<comment> \<open>how often the wall clock was read\<close>
  usleep_calls :: "u32 list"            \<comment> \<open>the microsecond counts passed to \<^verbatim>\<open>usleep\<close>\<close>

definition world0 :: world where
  "world0 = \<lparr>bus_trace = [], stderr = [], stdout = [], files = Map.empty,
             clock_reads = 0, usleep_calls = []\<rparr>"

definition perror :: "world \<Rightarrow> string \<Rightarrow> world" where
  "perror w s = w\<lparr>stderr := stderr w @ [Perror s]\<rparr>"

definition fprintf_stderr :: "world \<Rightarrow> string \<Rightarrow> int list \<Rightarrow> world" where
  "fprintf_stderr w fmt args = w\<lparr>stderr := stderr w @ [Fprintf fmt args]\<rparr>"

definition printf :: "world \<Rightarrow> string \<Rightarrow> real list \<Rightarrow> world" where
  "printf w fmt args = w\<lparr>stdout := stdout w @ [Printf fmt args]\<rparr>"

subsection \<open>The system calls on the I2C file descriptor\<close>

text \<open>
  What the device does with the bytes offered to it, after the transfers \<open>tr\<close>: the value
  that \<^verbatim>\<open>write\<close> returns, which is the number of bytes taken, at most the number
  offered, or \<open>-1\<close>.
\<close>

definition write_count :: "env \<Rightarrow> bus_event list \<Rightarrow> u8 list \<Rightarrow> int" where
  "write_count e tr bytes =
     (case dev_write e tr bytes of
        None \<Rightarrow> - 1
      | Some k \<Rightarrow> int (min k (length bytes)))"

text \<open>
  What the device delivers when \<open>n\<close> bytes are asked for, after the transfers \<open>tr\<close>:
  at most \<open>n\<close> bytes, or an error; and the value that \<^verbatim>\<open>read\<close> returns for it.
\<close>

definition read_data :: "env \<Rightarrow> bus_event list \<Rightarrow> nat \<Rightarrow> u8 list option" where
  "read_data e tr n =
     (case dev_read e tr n of
        None \<Rightarrow> None
      | Some bytes \<Rightarrow> Some (take n bytes))"

definition read_count :: "env \<Rightarrow> bus_event list \<Rightarrow> nat \<Rightarrow> int" where
  "read_count e tr n =
     (case read_data e tr n of
        None \<Rightarrow> - 1
      | Some got \<Rightarrow> int (length got))"

text \<open>\<^verbatim>\<open>write(g_i2cFid, buf, n)\<close>, with \<open>bytes\<close> the first \<open>n\<close> bytes of \<open>buf\<close>.\<close>

definition write_fd :: "env \<Rightarrow> world \<Rightarrow> u8 list \<Rightarrow> int \<times> world" where
  "write_fd e w bytes =
     (write_count e (bus_trace w) bytes, w\<lparr>bus_trace := bus_trace w @ [Write_ev bytes]\<rparr>)"

text \<open>
  \<^verbatim>\<open>read(g_i2cFid, buf, n)\<close> stores the bytes that arrive at the start of \<open>buf\<close> and
  returns their number, or \<open>-1\<close>. Storing more bytes than the caller's array holds is a
  store out of bounds.
\<close>

definition read_fd :: "env \<Rightarrow> world \<Rightarrow> u8 list \<Rightarrow> nat \<Rightarrow> (int \<times> u8 list, world) outcome" where
  "read_fd e w buf n =
     (let w1 = w\<lparr>bus_trace := bus_trace w @ [Read_ev n]\<rparr> in
      case read_data e (bus_trace w) n of
        None \<Rightarrow> Returns (read_count e (bus_trace w) n, buf) w1
      | Some got \<Rightarrow>
          if length buf < length got then Undefined Out_of_bounds_write
          else Returns (read_count e (bus_trace w) n, got @ drop (length got) buf) w1)"

subsection \<open>bus_write\<close>

text \<open>
  The loop \<^verbatim>\<open>for (int i=1; i<data_len+1; i++) reg[i] = reg_data_ptr[i-1];\<close>.
  The local array \<^verbatim>\<open>reg\<close> is a list of cells, \<open>None\<close> for a cell that was never
  written; its length is the declared size. The caller's array \<^verbatim>\<open>reg_data_ptr\<close> is
  the list of the bytes it holds. Each round first loads \<^verbatim>\<open>reg_data_ptr[i-1]\<close> and then
  stores into \<^verbatim>\<open>reg[i]\<close>; either access can leave its array.
\<close>

function bus_write_loop :: "u8 option list \<Rightarrow> u8 list \<Rightarrow> nat \<Rightarrow> nat \<Rightarrow> ub + u8 option list" where
  "bus_write_loop reg reg_data_ptr data_len i =
     (if i < data_len + 1 then
        if length reg_data_ptr \<le> i - 1 then Inl Out_of_bounds_read
        else if length reg \<le> i then Inl Out_of_bounds_write
        else bus_write_loop (reg[i := Some (reg_data_ptr ! (i - 1))]) reg_data_ptr data_len (i + 1)
      else Inr reg)"
  by pat_completeness auto
termination
  by (relation "measure (\<lambda>(reg, reg_data_ptr, data_len, i). data_len + 1 - i)") auto

declare bus_write_loop.simps [simp del]

text \<open>The first \<open>n\<close> bytes of a local array, as a system call reads them.\<close>

definition load_bytes :: "u8 option list \<Rightarrow> nat \<Rightarrow> ub + u8 list" where
  "load_bytes reg n =
     (if length reg < n then Inl Out_of_bounds_read
      else case those (take n reg) of
             None \<Rightarrow> Inl Uninitialised_read
           | Some bytes \<Rightarrow> Inr bytes)"

text \<open>
  \<^verbatim>\<open>bus_write\<close>: \<^verbatim>\<open>uint8_t reg[16]; reg[0]=reg_addr;\<close>, the loop, then one
  \<^verbatim>\<open>write\<close> of \<^verbatim>\<open>data_len+1\<close> bytes; a short write ends in \<^verbatim>\<open>exit(1)\<close>.
  The parameter \<^verbatim>\<open>dev_addr\<close> is not used by the C code.
\<close>

definition bus_write :: "env \<Rightarrow> world \<Rightarrow> u8 \<Rightarrow> u8 \<Rightarrow> u8 list \<Rightarrow> u16 \<Rightarrow> (s8, world) outcome" where
  "bus_write e w dev_addr reg_addr reg_data_ptr data_len =
     (let rslt = 0;
          reg = (replicate 16 None)[0 := Some reg_addr]
      in case bus_write_loop reg reg_data_ptr (unat data_len) 1 of
           Inl u \<Rightarrow> Undefined u
         | Inr reg' \<Rightarrow>
             (case load_bytes reg' (unat data_len + 1) of
                Inl u \<Rightarrow> Undefined u
              | Inr frame \<Rightarrow>
                  (let (n, w1) = write_fd e w frame in
                   if n \<noteq> int (unat data_len) + 1
                   then Exits 1 (perror w1 ''user_i2c_write'')
                   else Returns rslt w1)))"

subsection \<open>bus_read\<close>

text \<open>
  \<^verbatim>\<open>bus_read\<close>: a one-byte \<^verbatim>\<open>write\<close> of the register address, then a \<^verbatim>\<open>read\<close> of
  \<^verbatim>\<open>data_len\<close> bytes into the caller's array. The read is issued whether or not the
  write went through; either failure sets the result to 1.
\<close>

definition bus_read :: "env \<Rightarrow> world \<Rightarrow> u8 \<Rightarrow> u8 \<Rightarrow> u8 list \<Rightarrow> u16 \<Rightarrow> (s8 \<times> u8 list, world) outcome" where
  "bus_read e w dev_addr reg_addr reg_data_ptr data_len =
     (let rslt = 0;
          reg = [reg_addr];
          (n1, w1) = write_fd e w reg;
          (rslt, w2) = (if n1 \<noteq> 1 then (1, perror w1 ''user_i2c_read_reg'') else (rslt, w1))
      in case read_fd e w2 reg_data_ptr (unat data_len) of
           Undefined u \<Rightarrow> Undefined u
         | Exits c w3 \<Rightarrow> Exits c w3
         | Returns (n2, buf) w3 \<Rightarrow>
             (if n2 \<noteq> int (unat data_len)
              then Returns (1, buf) (perror w3 ''user_i2c_read_data'')
              else Returns (rslt, buf) w3))"

subsection \<open>sleeper\<close>

text \<open>
  \<^verbatim>\<open>usleep\<close> takes a \<^verbatim>\<open>useconds_t\<close>, an unsigned 32-bit count of microseconds.
\<close>

definition usleep :: "world \<Rightarrow> u32 \<Rightarrow> world" where
  "usleep w usec = w\<lparr>usleep_calls := usleep_calls w @ [usec]\<rparr>"

text \<open>
  \<^verbatim>\<open>usleep(t_ms * 1000)\<close>: the product of a \<^verbatim>\<open>uint32_t\<close> and the \<^verbatim>\<open>int\<close>
  constant 1000 is computed in unsigned 32-bit arithmetic, as the multiplication of
  \<open>32 word\<close> is.
\<close>

definition sleeper :: "world \<Rightarrow> u32 \<Rightarrow> world" where
  "sleeper w t_ms = usleep w (t_ms * 1000)"

subsection \<open>get_timestamp_us\<close>

text \<open>
  \<^verbatim>\<open>gettimeofday(&tv, NULL)\<close> reads the wall clock (the system's real-time clock).
  Its return value is not looked at by the code.
\<close>

definition gettimeofday :: "env \<Rightarrow> world \<Rightarrow> timeval \<times> world" where
  "gettimeofday e w = (wall_clock e (clock_reads w), w\<lparr>clock_reads := clock_reads w + 1\<rparr>)"

definition in_int64 :: "int \<Rightarrow> bool" where
  "in_int64 x = (- (2 ^ 63) \<le> x \<and> x < 2 ^ 63)"

text \<open>
  \<^verbatim>\<open>tv.tv_sec * 1000000ll + tv.tv_usec\<close> is computed in \<^verbatim>\<open>long long\<close>; the result
  is the value of the returned \<^verbatim>\<open>int64_t\<close>.
\<close>

definition get_timestamp_us :: "env \<Rightarrow> world \<Rightarrow> (int, world) outcome" where
  "get_timestamp_us e w =
     (let (tv, w1) = gettimeofday e w in
      if \<not> in_int64 (tv_sec tv * 1000000) then Undefined Signed_overflow
      else if \<not> in_int64 (tv_sec tv * 1000000 + tv_usec tv) then Undefined Signed_overflow
      else (let system_current_time = tv_sec tv * 1000000 + tv_usec tv
            in Returns system_current_time w1))"

text \<open>Two successive calls: the two timestamps, when both calls return.\<close>

definition two_timestamps :: "env \<Rightarrow> world \<Rightarrow> (int \<times> int) option" where
  "two_timestamps e w =
     (case get_timestamp_us e w of
        Returns t1 w1 \<Rightarrow>
          (case get_timestamp_us e w1 of
             Returns t2 w2 \<Rightarrow> Some (t1, t2)
           | Exits c w2 \<Rightarrow> None
           | Undefined u \<Rightarrow> None)
      | Exits c w1 \<Rightarrow> None
      | Undefined u \<Rightarrow> None)"

text \<open>A wall clock that is set back by one second between its first and second reading.\<close>

definition clock_set_back :: "nat \<Rightarrow> timeval" where
  "clock_set_back n = (if n = 0 then \<lparr>tv_sec = 100, tv_usec = 0\<rparr> else \<lparr>tv_sec = 99, tv_usec = 0\<rparr>)"

text \<open>Order of two clock readings, and a reading with its microseconds in range.\<close>

definition tv_le :: "timeval \<Rightarrow> timeval \<Rightarrow> bool" where
  "tv_le a b = (tv_sec a < tv_sec b \<or> (tv_sec a = tv_sec b \<and> tv_usec a \<le> tv_usec b))"

definition tv_normal :: "timeval \<Rightarrow> bool" where
  "tv_normal a = (0 \<le> tv_usec a \<and> tv_usec a < 1000000 \<and> \<bar>tv_sec a\<bar> \<le> 9223372036853)"

subsection \<open>output_ready and output_header\<close>

text \<open>
  The thirteen parameters of \<^verbatim>\<open>output_ready\<close> in the order of the C signature.
  The body is chosen by \<^verbatim>\<open>#ifdef DEBUG\<close>. The degree sign and the ohm sign of the
  debug format strings are UTF-8 byte sequences in the source.
\<close>

definition output_ready ::
  "env \<Rightarrow> world \<Rightarrow> int \<Rightarrow> real \<Rightarrow> u8 \<Rightarrow> real \<Rightarrow> real \<Rightarrow> real \<Rightarrow> real \<Rightarrow> real \<Rightarrow> real \<Rightarrow> int
     \<Rightarrow> real \<Rightarrow> real \<Rightarrow> real \<Rightarrow> world" where
  "output_ready e w timestamp iaq iaq_accuracy temperature humidity pressure raw_temperature
       raw_humidity gas bsec_status static_iaq co2_equivalent breath_voc_equivalent =
     (let w1 =
        (if debug e then
           (let wa = printf w ''[%.3lf] '' [real_of_int timestamp / 1000000000];
                wb = printf wa (''T: %.1f'' @ [CHR 0xC2, CHR 0xB0] @ ''C, P: %.1f hPa, rH: %.1f%%, '')
                       [temperature, pressure / 100, humidity]
            in printf wb (''G: %.0f '' @ [CHR 0xCE, CHR 0xA9] @ '', IAQ: %.1f'') [gas, iaq])
         else
           (let wa = printf w ''%.3lf|'' [real_of_int timestamp / 1000000000];
                wb = printf wa ''%.1f|%.1f|%.1f%%|'' [temperature, pressure / 100, humidity]
            in printf wb ''%.0f|%.1f'' [gas, iaq]))
      in printf w1 ''\<newline>'' [])"

definition output_header :: "world \<Rightarrow> world" where
  "output_header w =
     printf w ''Timestamp|Temperature|Pressure|RelativeHumidity|GasRawReading|IAQ\<newline>'' []"

text \<open>The numbers that a sequence of \<^verbatim>\<open>printf\<close> calls prints, in order.\<close>

fun printed_values :: "printf_call list \<Rightarrow> real list" where
  "printed_values [] = []"
| "printed_values (Printf fmt args # cs) = args @ printed_values cs"

subsection \<open>Standard I/O on files\<close>

datatype fmode = Mode_r | Mode_w | Mode_a   \<comment> \<open>the mode strings \<^verbatim>\<open>"r"\<close>, \<^verbatim>\<open>"w"\<close>, \<^verbatim>\<open>"a"\<close>\<close>

text \<open>
  An open stream: the path it was opened on, and the mode. Once a stream is open the
  storage is taken as reliable: \<^verbatim>\<open>fwrite\<close> stores every byte it is given and
  \<^verbatim>\<open>fread\<close> delivers every byte that is there (a full disk or a read error is not
  modelled). What can fail is \<^verbatim>\<open>fopen\<close>.
\<close>

datatype stream = Stream string fmode

text \<open>
  \<^verbatim>\<open>fopen\<close> returns a null pointer (\<open>None\<close>) when the file cannot be opened.
  Mode \<^verbatim>\<open>"r"\<close> needs an existing, readable file. Modes \<^verbatim>\<open>"w"\<close> and \<^verbatim>\<open>"a"\<close>
  need a writable file or, when there is none, the right to create it; they create the file
  empty, and \<^verbatim>\<open>"w"\<close> empties an existing one.
\<close>

definition fopen :: "env \<Rightarrow> world \<Rightarrow> string \<Rightarrow> fmode \<Rightarrow> stream option \<times> world" where
  "fopen e w path mode =
     (case mode of
        Mode_r \<Rightarrow>
          (case files w path of
             None \<Rightarrow> (None, w)
           | Some content \<Rightarrow> if may_read e path then (Some (Stream path mode), w) else (None, w))
      | Mode_w \<Rightarrow>
          (if (case files w path of None \<Rightarrow> may_create e path | Some content \<Rightarrow> may_write e path)
           then (Some (Stream path mode), w\<lparr>files := (files w)(path \<mapsto> [])\<rparr>)
           else (None, w))
      | Mode_a \<Rightarrow>
          (case files w path of
             None \<Rightarrow>
               if may_create e path
               then (Some (Stream path mode), w\<lparr>files := (files w)(path \<mapsto> [])\<rparr>)
               else (None, w)
           | Some content \<Rightarrow>
               if may_write e path then (Some (Stream path mode), w) else (None, w)))"

text \<open>
  \<^verbatim>\<open>fclose\<close> needs a stream; a null pointer is undefined behaviour (the C library
  dereferences it).
\<close>

definition fclose :: "world \<Rightarrow> stream option \<Rightarrow> (int, world) outcome" where
  "fclose w state_file =
     (case state_file of
        None \<Rightarrow> Undefined Null_stream
      | Some f \<Rightarrow> Returns 0 w)"

text \<open>
  \<^verbatim>\<open>fread(ptr, 1, nmemb, stream)\<close> on a stream just opened for reading: up to
  \<open>nmemb\<close> bytes from the start of the file are stored at the start of the caller's array,
  and their number is returned.
\<close>

definition fread :: "world \<Rightarrow> u8 list \<Rightarrow> nat \<Rightarrow> stream \<Rightarrow> (nat \<times> u8 list, world) outcome" where
  "fread w ptr nmemb f =
     (case f of Stream path mode \<Rightarrow>
        (let got = (case files w path of None \<Rightarrow> [] | Some content \<Rightarrow> take nmemb content) in
         if length ptr < length got then Undefined Out_of_bounds_write
         else Returns (length got, got @ drop (length got) ptr) w))"

text \<open>
  \<^verbatim>\<open>fwrite(ptr, 1, nmemb, stream)\<close> on a stream opened for writing: the first
  \<open>nmemb\<close> bytes of the caller's array are added at the end of the file.
\<close>

definition fwrite :: "world \<Rightarrow> u8 list \<Rightarrow> nat \<Rightarrow> stream \<Rightarrow> (nat, world) outcome" where
  "fwrite w ptr nmemb f =
     (case f of Stream path mode \<Rightarrow>
        if length ptr < nmemb then Undefined Out_of_bounds_read
        else Returns nmemb
               (w\<lparr>files := (files w)(path \<mapsto>
                    (case files w path of None \<Rightarrow> [] | Some content \<Rightarrow> content) @ take nmemb ptr)\<rparr>))"

subsection \<open>state_load and state_save\<close>

definition STATE_FILE_PATH :: string where
  "STATE_FILE_PATH = ''bsec_state.dat''"

text \<open>
  \<^verbatim>\<open>state_load\<close>: open in append mode and close, to make sure the file exists; open
  for reading; if that gave a stream, read up to \<^verbatim>\<open>n_buffer\<close> bytes and log the count,
  else the size is 0; close; return the size (the variable \<^verbatim>\<open>size\<close> is \<open>sz\<close> here). Both \<^verbatim>\<open>fclose\<close> calls are made on
  whatever \<^verbatim>\<open>fopen\<close> returned.
\<close>

definition state_load :: "env \<Rightarrow> world \<Rightarrow> u8 list \<Rightarrow> u32 \<Rightarrow> (u32 \<times> u8 list, world) outcome" where
  "state_load e w state_buffer n_buffer =
     (let (state_file, w1) = fopen e w STATE_FILE_PATH Mode_a in
      case fclose w1 state_file of
        Undefined u \<Rightarrow> Undefined u
      | Exits c w2 \<Rightarrow> Exits c w2
      | Returns r w2 \<Rightarrow>
          (let (state_file, w3) = fopen e w2 STATE_FILE_PATH Mode_r in
           case (case state_file of
                   Some f \<Rightarrow>
                     (case fread w3 state_buffer (unat n_buffer) f of
                        Undefined u \<Rightarrow> Undefined u
                      | Exits c w4 \<Rightarrow> Exits c w4
                      | Returns (k, buf) w4 \<Rightarrow>
                          (let sz = (word_of_nat k :: u32) in
                           Returns (sz, buf)
                             (fprintf_stderr w4 ''Loaded sensor state (%d bytes)\<newline>'' [sint sz])))
                 | None \<Rightarrow> Returns (0, state_buffer) w3)
           of
             Undefined u \<Rightarrow> Undefined u
           | Exits c w5 \<Rightarrow> Exits c w5
           | Returns (sz, buf) w5 \<Rightarrow>
               (case fclose w5 state_file of
                  Undefined u \<Rightarrow> Undefined u
                | Exits c w6 \<Rightarrow> Exits c w6
                | Returns r w6 \<Rightarrow> Returns (sz, buf) w6)))"

text \<open>
  \<^verbatim>\<open>state_save\<close>: open for writing; if that gave a stream, write \<^verbatim>\<open>length\<close> bytes
  and log success, else log the failure; then close whatever \<^verbatim>\<open>fopen\<close> returned.
  The result of \<^verbatim>\<open>fwrite\<close> is not looked at.
\<close>

definition state_save :: "env \<Rightarrow> world \<Rightarrow> u8 list \<Rightarrow> u32 \<Rightarrow> (unit, world) outcome" where
  "state_save e w state_buffer len =
     (let (state_file, w1) = fopen e w STATE_FILE_PATH Mode_w in
      case (case state_file of
              Some f \<Rightarrow>
                (case fwrite w1 state_buffer (unat len) f of
                   Undefined u \<Rightarrow> Undefined u
                 | Exits c w2 \<Rightarrow> Exits c w2
                 | Returns k w2 \<Rightarrow>
                     Returns () (fprintf_stderr w2 ''Saved sensor state\<newline>'' []))
            | None \<Rightarrow>
                Returns () (fprintf_stderr w1 ''Unable to save sensor state!\<newline>'' []))
      of
        Undefined u \<Rightarrow> Undefined u
      | Exits c w3 \<Rightarrow> Exits c w3
      | Returns r w3 \<Rightarrow>
          (case fclose w3 state_file of
             Undefined u \<Rightarrow> Undefined u
           | Exits c w4 \<Rightarrow> Exits c w4
           | Returns r w4 \<Rightarrow> Returns () w4))"

text \<open>
  Environments used for concrete runs. In \<open>env_ok\<close> the device takes every byte it is
  offered and has eight bytes to deliver, every file may be created, written and read,
  and the wall clock advances by one second per reading.
\<close>

definition env_ok :: env where
  "env_ok = \<lparr>dev_write = (\<lambda>tr bytes. Some (length bytes)),
            dev_read = (\<lambda>tr n. Some [0x10, 0x20, 0x30, 0x40, 0x50, 0x60, 0x70, 0x80]),
            may_create = (\<lambda>p. True), may_write = (\<lambda>p. True), may_read = (\<lambda>p. True),
            wall_clock = (\<lambda>n. \<lparr>tv_sec = int n, tv_usec = 0\<rparr>),
            debug = False\<rparr>"

text \<open>A device that takes one byte less than it is offered.\<close>

definition env_short_write :: env where
  "env_short_write = env_ok\<lparr>dev_write := (\<lambda>tr bytes. Some (length bytes - 1))\<rparr>"

text \<open>A file system on which no file may be opened for reading.\<close>

definition env_unreadable :: env where
  "env_unreadable = env_ok\<lparr>may_read := (\<lambda>p. False)\<rparr>"

text \<open>A read-only file system: nothing may be created or written.\<close>

definition env_read_only :: env where
  "env_read_only = env_ok\<lparr>may_create := (\<lambda>p. False), may_write := (\<lambda>p. False)\<rparr>"

text \<open>A system whose wall clock is set back by one second after its first reading.\<close>

definition env_clock_set_back :: env where
  "env_clock_set_back = env_ok\<lparr>wall_clock := clock_set_back\<rparr>"

section \<open>Properties\<close>

subsection \<open>The copy loop and the frame of bus_write\<close>

lemma those_map_Some: "those (map Some xs) = Some xs"
  by (induction xs) simp_all

lemma bus_write_loop_copies:
  "data_len \<le> length reg_data_ptr \<Longrightarrow> data_len < length reg \<Longrightarrow> 1 \<le> i \<Longrightarrow>
   \<exists>reg'. bus_write_loop reg reg_data_ptr data_len i = Inr reg' \<and> length reg' = length reg \<and>
     (\<forall>j < length reg. reg' ! j = (if i \<le> j \<and> j \<le> data_len then Some (reg_data_ptr ! (j - 1)) else reg ! j))"
proof (induction reg reg_data_ptr data_len i rule: bus_write_loop.induct)
  case (1 reg reg_data_ptr data_len i)
  show ?case
  proof (cases "i < data_len + 1")
    case False
    then show ?thesis by (subst bus_write_loop.simps) auto
  next
    case True
    let ?reg1 = "reg[i := Some (reg_data_ptr ! (i - 1))]"
    from True "1.prems" have a: "\<not> length reg_data_ptr \<le> i - 1" and b: "\<not> length reg \<le> i" by auto
    from "1.IH"[OF True a b] "1.prems"
    obtain reg' where r: "bus_write_loop ?reg1 reg_data_ptr data_len (i + 1) = Inr reg'"
      and l: "length reg' = length reg"
      and n: "\<forall>j < length reg. reg' ! j = (if i + 1 \<le> j \<and> j \<le> data_len then Some (reg_data_ptr ! (j - 1)) else ?reg1 ! j)"
      by auto
    have "bus_write_loop reg reg_data_ptr data_len i = Inr reg'"
      using True a b r by (subst bus_write_loop.simps) simp
    moreover have "\<forall>j < length reg. reg' ! j = (if i \<le> j \<and> j \<le> data_len then Some (reg_data_ptr ! (j - 1)) else reg ! j)"
      using n True b by (auto simp: nth_list_update)
    ultimately show ?thesis using l by simp
  qed
qed

lemma bus_write_loop_overflow:
  "data_len \<le> length reg_data_ptr \<Longrightarrow> length reg \<le> data_len \<Longrightarrow> 1 \<le> i \<Longrightarrow> i \<le> length reg \<Longrightarrow>
   bus_write_loop reg reg_data_ptr data_len i = Inl Out_of_bounds_write"
proof (induction reg reg_data_ptr data_len i rule: bus_write_loop.induct)
  case (1 reg reg_data_ptr data_len i)
  from "1.prems" have lt: "i < data_len + 1" and a: "\<not> length reg_data_ptr \<le> i - 1" by auto
  show ?case
  proof (cases "length reg \<le> i")
    case True
    then show ?thesis using lt a by (subst bus_write_loop.simps) simp
  next
    case False
    from "1.IH"[OF lt a False] "1.prems" False
    have "bus_write_loop (reg[i := Some (reg_data_ptr ! (i - 1))]) reg_data_ptr data_len (i + 1) = Inl Out_of_bounds_write"
      by simp
    then show ?thesis using lt a False by (subst bus_write_loop.simps) simp
  qed
qed

lemma bus_write_loop_short_payload:
  "length reg_data_ptr < data_len \<Longrightarrow> 1 \<le> i \<Longrightarrow> i \<le> length reg_data_ptr + 1 \<Longrightarrow>
   \<exists>u. bus_write_loop reg reg_data_ptr data_len i = Inl u"
proof (induction reg reg_data_ptr data_len i rule: bus_write_loop.induct)
  case (1 reg reg_data_ptr data_len i)
  from "1.prems" have lt: "i < data_len + 1" by auto
  show ?case
  proof (cases "length reg_data_ptr \<le> i - 1 \<or> length reg \<le> i")
    case True
    then show ?thesis using lt by (subst bus_write_loop.simps) auto
  next
    case False
    then have a: "\<not> length reg_data_ptr \<le> i - 1" and b: "\<not> length reg \<le> i" by auto
    from a "1.prems" have c: "i + 1 \<le> length reg_data_ptr + 1" by arith
    from "1.IH"[OF lt a b "1.prems"(1) _ c]
    obtain u where "bus_write_loop (reg[i := Some (reg_data_ptr ! (i - 1))]) reg_data_ptr data_len (i + 1) = Inl u"
      by auto
    then show ?thesis using lt a b by (subst bus_write_loop.simps) simp
  qed
qed

lemma bus_write_frame:
  assumes "data_len \<le> length reg_data_ptr" "data_len \<le> 15"
  shows "\<exists>reg'. bus_write_loop ((replicate 16 None)[0 := Some reg_addr]) reg_data_ptr data_len 1 = Inr reg'
     \<and> load_bytes reg' (data_len + 1) = Inr (reg_addr # take data_len reg_data_ptr)"
proof -
  let ?reg = "(replicate 16 None)[0 := Some reg_addr]"
  from bus_write_loop_copies[of data_len reg_data_ptr ?reg 1] assms
  obtain reg' where r: "bus_write_loop ?reg reg_data_ptr data_len 1 = Inr reg'"
    and l: "length reg' = 16"
    and n: "\<forall>j < 16. reg' ! j = (if 1 \<le> j \<and> j \<le> data_len then Some (reg_data_ptr ! (j - 1)) else ?reg ! j)"
    by auto
  have "take (data_len + 1) reg' = map Some (reg_addr # take data_len reg_data_ptr)"
  proof (rule nth_equalityI)
    show "length (take (data_len + 1) reg') = length (map Some (reg_addr # take data_len reg_data_ptr))"
      using l assms by simp
  next
    fix j assume "j < length (take (data_len + 1) reg')"
    then have j: "j < data_len + 1" "j < 16" using l by auto
    show "take (data_len + 1) reg' ! j = map Some (reg_addr # take data_len reg_data_ptr) ! j"
    proof (cases j)
      case 0
      then show ?thesis using n j by simp
    next
      case (Suc k)
      then show ?thesis using n j assms by simp
    qed
  qed
  then have "load_bytes reg' (data_len + 1) = Inr (reg_addr # take data_len reg_data_ptr)"
    using l assms unfolding load_bytes_def by (simp only: those_map_Some) simp
  with r show ?thesis by blast
qed

lemma bus_write_in_bounds:
  assumes "unat data_len \<le> length reg_data_ptr" "unat data_len \<le> 15"
  shows "bus_write e w dev_addr reg_addr reg_data_ptr data_len =
     (if write_count e (bus_trace w) (reg_addr # take (unat data_len) reg_data_ptr) \<noteq> int (unat data_len) + 1
      then Exits 1 (perror (w\<lparr>bus_trace := bus_trace w @ [Write_ev (reg_addr # take (unat data_len) reg_data_ptr)]\<rparr>) ''user_i2c_write'')
      else Returns 0 (w\<lparr>bus_trace := bus_trace w @ [Write_ev (reg_addr # take (unat data_len) reg_data_ptr)]\<rparr>))"
proof -
  from bus_write_frame[OF assms, of reg_addr]
  obtain reg' where "bus_write_loop ((replicate 16 None)[0 := Some reg_addr]) reg_data_ptr (unat data_len) 1 = Inr reg'"
    and "load_bytes reg' (unat data_len + 1) = Inr (reg_addr # take (unat data_len) reg_data_ptr)"
    by blast
  then show ?thesis
    by (simp add: bus_write_def write_fd_def)
qed

lemma bus_write_out_of_bounds:
  assumes "unat data_len \<le> length reg_data_ptr" "16 \<le> unat data_len"
  shows "bus_write e w dev_addr reg_addr reg_data_ptr data_len = Undefined Out_of_bounds_write"
  using bus_write_loop_overflow[of "unat data_len" reg_data_ptr "(replicate 16 None)[0 := Some reg_addr]" 1] assms
  by (simp add: bus_write_def)

lemma bus_write_short_payload:
  assumes "length reg_data_ptr < unat data_len"
  shows "\<exists>u. bus_write e w dev_addr reg_addr reg_data_ptr data_len = Undefined u"
  using bus_write_loop_short_payload[of reg_data_ptr "unat data_len" 1 "(replicate 16 None)[0 := Some reg_addr]"] assms
  by (auto simp add: bus_write_def)

lemma bus_write_short_exits:
  assumes "unat data_len \<le> length reg_data_ptr" "unat data_len \<le> 15"
    and "write_count e (bus_trace w) (reg_addr # take (unat data_len) reg_data_ptr)
           \<noteq> int (unat data_len) + 1"
  shows "\<exists>w'. bus_write e w dev_addr reg_addr reg_data_ptr data_len = Exits 1 w'"
  using assms(3) by (simp add: bus_write_in_bounds[OF assms(1,2)])

text \<open>
  Claim C7. Whenever \<^verbatim>\<open>bus_write\<close> returns to its caller, it returns 0, and it has
  issued exactly one transfer on the bus: a write of \<^verbatim>\<open>data_len + 1\<close> bytes, the
  register address followed by the first \<^verbatim>\<open>data_len\<close> bytes of the payload in order,
  all of which the device took.
\<close>

theorem bus_write_success_frame:
  assumes "bus_write e w dev_addr reg_addr reg_data_ptr data_len = Returns rslt w'"
  shows "rslt = 0
    \<and> bus_trace w' = bus_trace w @ [Write_ev (reg_addr # take (unat data_len) reg_data_ptr)]
    \<and> length (reg_addr # take (unat data_len) reg_data_ptr) = unat data_len + 1
    \<and> write_count e (bus_trace w) (reg_addr # take (unat data_len) reg_data_ptr)
        = int (unat data_len) + 1"
proof -
  have p: "unat data_len \<le> length reg_data_ptr"
    using assms bus_write_short_payload[of reg_data_ptr data_len e w dev_addr reg_addr]
    by (cases "unat data_len \<le> length reg_data_ptr") auto
  have q: "unat data_len \<le> 15"
    using assms p bus_write_out_of_bounds[of data_len reg_data_ptr e w dev_addr reg_addr]
    by (cases "unat data_len \<le> 15") auto
  from assms show ?thesis
    unfolding bus_write_in_bounds[OF p q] using p by (auto split: if_splits)
qed

theorem bus_write_success_frame_witness:
  "bus_write env_ok world0 0x77 0x74 [1, 2, 3] 3
     = Returns 0 (world0\<lparr>bus_trace := [Write_ev [0x74, 1, 2, 3]]\<rparr>)
   \<and> bus_trace (world0\<lparr>bus_trace := [Write_ev [0x74, 1, 2, 3]]\<rparr>)
       = bus_trace world0 @ [Write_ev (0x74 # take (unat (3 :: u16)) [1, 2, 3])]"
proof -
  have r: "bus_write env_ok world0 0x77 0x74 [1, 2, 3] 3
             = Returns 0 (world0\<lparr>bus_trace := [Write_ev [0x74, 1, 2, 3]]\<rparr>)"
    by (simp add: bus_write_in_bounds write_count_def env_ok_def world0_def)
  from bus_write_success_frame[OF r] r show ?thesis by simp
qed

text \<open>
  Claim C10. The frame is built in the 16-byte array \<^verbatim>\<open>reg\<close>. For a call whose
  payload array holds the \<^verbatim>\<open>data_len\<close> bytes it announces, the copy loop stores past
  the end of \<^verbatim>\<open>reg\<close> exactly when \<^verbatim>\<open>data_len\<close> is 16 or more, and the framed write
  (register address, then the payload) is issued on the bus exactly when \<^verbatim>\<open>data_len\<close>
  is at most 15.
\<close>

theorem bus_write_bounds:
  assumes "unat data_len \<le> length reg_data_ptr"
  shows "(bus_write e w dev_addr reg_addr reg_data_ptr data_len = Undefined Out_of_bounds_write)
           = (16 \<le> unat data_len)
    \<and> (\<exists>rslt w'. (bus_write e w dev_addr reg_addr reg_data_ptr data_len = Returns rslt w'
                    \<or> bus_write e w dev_addr reg_addr reg_data_ptr data_len = Exits 1 w')
          \<and> bus_trace w' = bus_trace w @ [Write_ev (reg_addr # take (unat data_len) reg_data_ptr)])
           = (unat data_len \<le> 15)"
proof (cases "16 \<le> unat data_len")
  case True
  then show ?thesis using bus_write_out_of_bounds[OF assms] by simp
next
  case False
  then have "unat data_len \<le> 15" by simp
  from bus_write_in_bounds[OF assms this] this show ?thesis by (simp add: perror_def)
qed

theorem bus_write_bounds_witness:
  "unat (16 :: u16) \<le> length (replicate 16 (0 :: u8))
   \<and> unat (15 :: u16) \<le> length (replicate 15 (0 :: u8))
   \<and> bus_write env_ok world0 0x77 0x5A (replicate 16 0) 16 = Undefined Out_of_bounds_write
   \<and> bus_write env_ok world0 0x77 0x5A (replicate 15 0) 15 \<noteq> Undefined Out_of_bounds_write
   \<and> (\<exists>rslt w'. (bus_write env_ok world0 0x77 0x5A (replicate 15 0) 15 = Returns rslt w'
                   \<or> bus_write env_ok world0 0x77 0x5A (replicate 15 0) 15 = Exits 1 w')
         \<and> bus_trace w' = bus_trace world0 @ [Write_ev (0x5A # take (unat (15 :: u16)) (replicate 15 0))])"
  using bus_write_bounds[where data_len = 16 and reg_data_ptr = "replicate 16 0" and e = env_ok
          and w = world0 and dev_addr = 119 and reg_addr = 90]
        bus_write_bounds[where data_len = 15 and reg_data_ptr = "replicate 15 0" and e = env_ok
          and w = world0 and dev_addr = 119 and reg_addr = 90]
  by simp

text \<open>
  Claim C3. The claim is that a short transfer makes \<^verbatim>\<open>bus_write\<close> return a nonzero
  result. The code sets \<^verbatim>\<open>rslt = 1\<close> and then calls \<^verbatim>\<open>exit(1)\<close>, so the caller
  never sees the result: with a device that takes one byte of the two offered, the call
  ends the process with status 1.
\<close>

theorem bus_write_short_write_exits:
  "bus_write env_short_write world0 0x77 0x74 [0x54] 1
     = Exits 1 (world0\<lparr>bus_trace := [Write_ev [0x74, 0x54]],
                        stderr := [Perror ''user_i2c_write'']\<rparr>)"
  by (simp add: bus_write_in_bounds write_count_def perror_def world0_def
        env_short_write_def env_ok_def)

subsection \<open>bus_read\<close>

lemma word_count_eq: "(int k = uint (x :: 'a::len word)) = (k = unat x)"
  by (metis of_nat_eq_iff uint_nat)

text \<open>
  Claim C6. A call of \<^verbatim>\<open>bus_read\<close> with an array that holds at least
  \<^verbatim>\<open>data_len\<close> bytes always returns. It issues a one-byte write of the register address
  and then a read of \<^verbatim>\<open>data_len\<close> bytes, in this order and nothing else. Its result is
  nonzero if and only if the write did not transfer exactly one byte or the read did not
  transfer exactly \<^verbatim>\<open>data_len\<close> bytes. When the result is zero, the first
  \<^verbatim>\<open>data_len\<close> bytes of the array are the bytes that the device delivered, and the rest
  of the array is unchanged.
\<close>

theorem bus_read_spec:
  assumes "unat data_len \<le> length reg_data_ptr"
  shows "\<exists>rslt buf w'.
     bus_read e w dev_addr reg_addr reg_data_ptr data_len = Returns (rslt, buf) w'
   \<and> bus_trace w' = bus_trace w @ [Write_ev [reg_addr], Read_ev (unat data_len)]
   \<and> (rslt \<noteq> 0) =
       (write_count e (bus_trace w) [reg_addr] \<noteq> 1
        \<or> read_count e (bus_trace w @ [Write_ev [reg_addr]]) (unat data_len) \<noteq> int (unat data_len))
   \<and> (rslt = 0 \<longrightarrow>
        read_data e (bus_trace w @ [Write_ev [reg_addr]]) (unat data_len)
          = Some (take (unat data_len) buf)
        \<and> length (take (unat data_len) buf) = unat data_len
        \<and> drop (unat data_len) buf = drop (unat data_len) reg_data_ptr)"
proof -
  let ?tr = "bus_trace w @ [Write_ev [reg_addr]]"
  let ?n = "unat data_len"
  show ?thesis
  proof (cases "read_data e ?tr ?n")
    case None
    have "uint data_len \<noteq> - 1" using uint_ge_0[of data_len] by linarith
    with None show ?thesis
      by (simp add: bus_read_def write_fd_def read_fd_def read_count_def perror_def Let_def)
  next
    case (Some got)
    then have "length got \<le> ?n"
      by (auto simp: read_data_def split: option.splits)
    with assms have le: "length got \<le> length reg_data_ptr" by simp
    have eq: "(int (length got) = uint data_len) = (length got = ?n)"
      by (rule word_count_eq)
    show ?thesis
    proof (cases "length got = ?n")
      case True
      with Some le assms show ?thesis
        by (simp add: bus_read_def write_fd_def read_fd_def read_count_def perror_def Let_def)
    next
      case False
      with Some le assms eq show ?thesis
        by (simp add: bus_read_def write_fd_def read_fd_def read_count_def perror_def Let_def)
    qed
  qed
qed

theorem bus_read_spec_witness:
  "unat (4 :: u16) \<le> length [9, 9, 9, 9, 9 :: u8]
   \<and> bus_read env_ok world0 0x77 0x1D [9, 9, 9, 9, 9] 4
       = Returns (0, [0x10, 0x20, 0x30, 0x40, 9])
           (world0\<lparr>bus_trace := [Write_ev [0x1D], Read_ev 4]\<rparr>)
   \<and> read_data env_ok (bus_trace world0 @ [Write_ev [0x1D]]) (unat (4 :: u16))
       = Some (take (unat (4 :: u16)) [0x10, 0x20, 0x30, 0x40, 9])"
proof -
  have h: "unat (4 :: u16) \<le> length [9, 9, 9, 9, 9 :: u8]" by simp
  have r: "bus_read env_ok world0 0x77 0x1D [9, 9, 9, 9, 9] 4
       = Returns (0, [0x10, 0x20, 0x30, 0x40, 9])
           (world0\<lparr>bus_trace := [Write_ev [0x1D], Read_ev 4]\<rparr>)"
    by (simp add: bus_read_def write_fd_def read_fd_def read_count_def read_data_def
          write_count_def env_ok_def world0_def Let_def)
  from bus_read_spec[OF h, where e = env_ok and w = world0 and dev_addr = 119 and reg_addr = 29] r h
  show ?thesis by (auto simp add: world0_def)
qed

subsection \<open>The state file\<close>

lemma state_load_append_fails:
  "fst (fopen e w STATE_FILE_PATH Mode_a) = None
   \<Longrightarrow> state_load e w state_buffer n_buffer = Undefined Null_stream"
  by (auto simp add: state_load_def fclose_def split: prod.splits option.splits outcome.splits)

lemma state_load_read_fails:
  "fst (fopen e (snd (fopen e w STATE_FILE_PATH Mode_a)) STATE_FILE_PATH Mode_r) = None
   \<Longrightarrow> state_load e w state_buffer n_buffer = Undefined Null_stream"
  by (auto simp add: state_load_def fclose_def split: prod.splits option.splits outcome.splits)

lemma state_load_no_file:
  "files w STATE_FILE_PATH = None \<Longrightarrow> may_create e STATE_FILE_PATH
   \<Longrightarrow> may_read e STATE_FILE_PATH
   \<Longrightarrow> state_load e w state_buffer n_buffer = Returns (0, state_buffer)
         (fprintf_stderr (w\<lparr>files := (files w)(STATE_FILE_PATH \<mapsto> [])\<rparr>)
            ''Loaded sensor state (%d bytes)\<newline>'' [0])"
  by (simp add: state_load_def fopen_def fclose_def fread_def Let_def)

lemma state_save_open_fails:
  "fst (fopen e w STATE_FILE_PATH Mode_w) = None
   \<Longrightarrow> state_save e w state_buffer len = Undefined Null_stream"
  by (auto simp add: state_save_def fclose_def split: prod.splits option.splits outcome.splits)

text \<open>
  Claim C1. On storage where the state file may be created, written and read:
  for every byte sequence \<open>b\<close> of length \<open>N\<close>, \<^verbatim>\<open>state_save(b, N)\<close> returns, and a
  following \<^verbatim>\<open>state_load\<close> into an array of at least \<^verbatim>\<open>n_buffer\<close> bytes, with
  \<open>N \<le> n_buffer\<close>, returns \<open>N\<close> and leaves exactly the bytes \<open>b\<close> at the start of the
  array; the file holds \<open>b\<close>, whatever it held before.
\<close>

theorem state_round_trip:
  assumes "may_create e STATE_FILE_PATH" "may_write e STATE_FILE_PATH" "may_read e STATE_FILE_PATH"
    and "length b = unat N" "N \<le> n_buffer" "unat n_buffer \<le> length buf"
  shows "\<exists>w1 w2 buf'.
      state_save e w b N = Returns () w1
    \<and> state_load e w1 buf n_buffer = Returns (N, buf') w2
    \<and> take (unat N) buf' = b
    \<and> files w2 STATE_FILE_PATH = Some b"
proof -
  let ?saved = "''Saved sensor state\<newline>''"
  let ?w1 = "fprintf_stderr (w\<lparr>files := (files w)(STATE_FILE_PATH \<mapsto> b)\<rparr>) ?saved []"
  have le: "unat N \<le> unat n_buffer"
    using assms(5) by (simp add: word_le_nat_alt)
  have sv: "state_save e w b N = Returns () ?w1"
    using assms(1,2,4)
    by (auto simp add: state_save_def fopen_def fwrite_def fclose_def fprintf_stderr_def
          split: option.splits)
  have f: "files ?w1 STATE_FILE_PATH = Some b"
    by (simp add: fprintf_stderr_def)
  have ld: "state_load e ?w1 buf n_buffer = Returns (N, b @ drop (unat N) buf)
              (fprintf_stderr ?w1 ''Loaded sensor state (%d bytes)\<newline>'' [sint N])"
    using assms(2,3,4,6) le f
    by (simp add: state_load_def fopen_def fread_def fclose_def Let_def)
  show ?thesis
    using sv ld assms(4) f by (simp add: fprintf_stderr_def)
qed

theorem state_round_trip_witness:
  "may_create env_ok STATE_FILE_PATH \<and> may_write env_ok STATE_FILE_PATH
   \<and> may_read env_ok STATE_FILE_PATH
   \<and> length [1, 2, 3 :: u8] = unat (3 :: u32) \<and> (3 :: u32) \<le> 8
   \<and> unat (8 :: u32) \<le> length [0, 0, 0, 0, 0, 0, 0, 0 :: u8]
   \<and> (\<exists>w1 w2 buf'.
        state_save env_ok world0 [1, 2, 3] 3 = Returns () w1
      \<and> state_load env_ok w1 [0, 0, 0, 0, 0, 0, 0, 0] 8 = Returns (3, buf') w2
      \<and> take (unat (3 :: u32)) buf' = [1, 2, 3]
      \<and> files w2 STATE_FILE_PATH = Some [1, 2, 3])"
  using state_round_trip[where e = env_ok and w = world0 and b = "[1, 2, 3]" and N = 3
          and n_buffer = 8 and buf = "[0, 0, 0, 0, 0, 0, 0, 0]"]
  by (simp add: env_ok_def)

text \<open>
  Claim C4. The claim is that \<^verbatim>\<open>state_load\<close> returns 0 when there is no state file or
  the storage is unreadable. The code sets the size to 0 when the file cannot be opened for
  reading, but then passes the null pointer to \<^verbatim>\<open>fclose\<close>; the first \<^verbatim>\<open>fclose\<close>
  is not guarded either. On a state file that exists and cannot be read, and on a
  read-only file system without a state file, the call is undefined (the process crashes
  in the C library) instead of returning 0.
\<close>

theorem state_load_unreadable_undefined:
  "state_load env_unreadable (world0\<lparr>files := [STATE_FILE_PATH \<mapsto> [1, 2, 3]]\<rparr>) [0, 0, 0, 0] 4
     = Undefined Null_stream
   \<and> state_load env_read_only world0 [0, 0, 0, 0] 4 = Undefined Null_stream"
  by (simp add: state_load_def fopen_def fclose_def env_unreadable_def env_read_only_def
        env_ok_def world0_def)

text \<open>
  Claim C5. The claim is that \<^verbatim>\<open>state_save\<close> reports the failure and returns when the
  file cannot be opened for writing. The code prints the message and then passes the null
  pointer to \<^verbatim>\<open>fclose\<close>: on a read-only file system the call is undefined (the
  process crashes in the C library) instead of returning.
\<close>

theorem state_save_unwritable_undefined:
  "state_save env_read_only world0 [1, 2, 3] 3 = Undefined Null_stream"
  by (simp add: state_save_def fopen_def fclose_def env_read_only_def env_ok_def world0_def)

subsection \<open>sleeper\<close>

lemma sleeper_request:
  "usleep_calls (sleeper w t_ms) = usleep_calls w @ [t_ms * 1000]
   \<and> unat (t_ms * 1000) = (unat t_ms * 1000) mod 2 ^ 32"
  by (simp add: sleeper_def usleep_def unat_word_ariths)

lemma sleeper_exact:
  "unat t_ms \<le> 4294967
   \<Longrightarrow> usleep_calls (sleeper w t_ms) = usleep_calls w @ [t_ms * 1000]
       \<and> unat (t_ms * 1000) = unat t_ms * 1000"
  by (simp add: sleeper_def usleep_def unat_word_ariths)

text \<open>
  Claim C8. The claim is that for every 32-bit \<^verbatim>\<open>t_ms\<close> the microsecond count passed
  to \<^verbatim>\<open>usleep\<close> is \<^verbatim>\<open>t_ms\<close> times 1000. The product is computed in 32 bits and
  wraps: for \<^verbatim>\<open>t_ms = 4294968\<close> (about 71.6 minutes) the code asks for a sleep of 704
  microseconds.
\<close>

theorem sleeper_wraps:
  "usleep_calls (sleeper world0 4294968) = [704]"
  by (simp add: sleeper_def usleep_def world0_def)

subsection \<open>get_timestamp_us\<close>

lemma get_timestamp_us_returns:
  "tv_normal (wall_clock e (clock_reads w))
   \<Longrightarrow> get_timestamp_us e w =
         Returns (tv_sec (wall_clock e (clock_reads w)) * 1000000
                    + tv_usec (wall_clock e (clock_reads w)))
                 (w\<lparr>clock_reads := clock_reads w + 1\<rparr>)"
  by (auto simp add: get_timestamp_us_def gettimeofday_def tv_normal_def in_int64_def Let_def)

lemma tv_le_mono:
  "tv_le a b \<Longrightarrow> tv_normal a \<Longrightarrow> tv_normal b
   \<Longrightarrow> tv_sec a * 1000000 + tv_usec a \<le> tv_sec b * 1000000 + tv_usec b"
  by (auto simp add: tv_le_def tv_normal_def)

text \<open>
  Claim C9, as stated, fails: the timestamp is the reading of the wall clock, which the
  system may set back. When the clock shows 100 s at the first call and 99 s at the
  second, the second timestamp is smaller than the first.
\<close>

theorem get_timestamp_us_clock_set_back:
  "two_timestamps env_clock_set_back world0 = Some (100000000, 99000000)
   \<and> (99000000 :: int) < 100000000"
  by (simp add: two_timestamps_def get_timestamp_us_def gettimeofday_def world0_def
        clock_set_back_def in_int64_def env_clock_set_back_def env_ok_def)

text \<open>
  Claim C9, amended. Each call returns the wall-clock reading in microseconds,
  \<^verbatim>\<open>tv_sec * 1000000 + tv_usec\<close>. Two successive calls both return, and the second
  timestamp is not smaller than the first, provided the wall clock did not go backwards
  between the two readings and both readings are well formed (microseconds from 0 to
  999999, seconds small enough for the 64-bit result).
\<close>

theorem get_timestamp_us_non_decreasing:
  assumes "tv_normal (wall_clock e (clock_reads w))"
    and "tv_normal (wall_clock e (clock_reads w + 1))"
    and "tv_le (wall_clock e (clock_reads w)) (wall_clock e (clock_reads w + 1))"
  shows "\<exists>t1 t2. two_timestamps e w = Some (t1, t2) \<and> t1 \<le> t2
     \<and> t1 = tv_sec (wall_clock e (clock_reads w)) * 1000000
              + tv_usec (wall_clock e (clock_reads w))
     \<and> t2 = tv_sec (wall_clock e (clock_reads w + 1)) * 1000000
              + tv_usec (wall_clock e (clock_reads w + 1))"
  using assms tv_le_mono[OF assms(3) assms(1) assms(2)]
  by (simp add: two_timestamps_def get_timestamp_us_returns)

theorem get_timestamp_us_non_decreasing_witness:
  "tv_normal (wall_clock env_ok (clock_reads world0))
   \<and> tv_normal (wall_clock env_ok (clock_reads world0 + 1))
   \<and> tv_le (wall_clock env_ok (clock_reads world0)) (wall_clock env_ok (clock_reads world0 + 1))
   \<and> two_timestamps env_ok world0 = Some (0, 1000000)"
proof -
  have h: "tv_normal (wall_clock env_ok (clock_reads world0))"
      "tv_normal (wall_clock env_ok (clock_reads world0 + 1))"
      "tv_le (wall_clock env_ok (clock_reads world0)) (wall_clock env_ok (clock_reads world0 + 1))"
    by (simp_all add: tv_normal_def tv_le_def env_ok_def world0_def)
  from get_timestamp_us_non_decreasing[OF h] h show ?thesis
    by (auto simp add: env_ok_def world0_def)
qed

subsection \<open>output_ready\<close>

lemma printed_values_append:
  "printed_values (xs @ ys) = printed_values xs @ printed_values ys"
  by (induction xs rule: printed_values.induct) simp_all

text \<open>
  Claim C2, as stated, fails: the record does not contain the accuracy tier.
  A result with accuracy 3 is written as the four \<^verbatim>\<open>printf\<close> calls below, which carry
  the timestamp, the temperature, the pressure, the humidity, the gas signal and the IAQ
  value only, and the same result with accuracy 0 is written identically.
\<close>

theorem output_ready_drops_accuracy:
  "stdout (output_ready env_ok world0 1000000000 50 3 21 40 100000 0 0 12000 0 0 0 0)
     = [Printf ''%.3lf|'' [1], Printf ''%.1f|%.1f|%.1f%%|'' [21, 1000, 40],
        Printf ''%.0f|%.1f'' [12000, 50], Printf ''\<newline>'' []]
   \<and> output_ready env_ok world0 1000000000 50 3 21 40 100000 0 0 12000 0 0 0 0
     = output_ready env_ok world0 1000000000 50 0 21 40 100000 0 0 12000 0 0 0 0"
  by (simp add: output_ready_def printf_def env_ok_def world0_def)

text \<open>
  Claim C2, amended. For every result, in the normal and in the debug build, the record
  written by \<^verbatim>\<open>output_ready\<close> contains exactly six values, in this order: the
  timestamp (divided by \<open>10\<^sup>9\<close>), the temperature, the pressure (divided by 100), the
  relative humidity, the raw gas signal and the IAQ index value. The accuracy tier is not
  part of the record: the output is the same for every value of \<^verbatim>\<open>iaq_accuracy\<close>.
  The header line written by \<^verbatim>\<open>output_header\<close> names the same six columns.
\<close>

theorem output_ready_fields:
  "printed_values (stdout (output_ready e w timestamp iaq iaq_accuracy temperature humidity
       pressure raw_temperature raw_humidity gas bsec_status static_iaq co2_equivalent
       breath_voc_equivalent))
     = printed_values (stdout w)
         @ [real_of_int timestamp / 1000000000, temperature, pressure / 100, humidity, gas, iaq]
   \<and> output_ready e w timestamp iaq iaq_accuracy temperature humidity
       pressure raw_temperature raw_humidity gas bsec_status static_iaq co2_equivalent
       breath_voc_equivalent
     = output_ready e w timestamp iaq iaq_accuracy' temperature humidity
       pressure raw_temperature raw_humidity gas bsec_status static_iaq co2_equivalent
       breath_voc_equivalent
   \<and> stdout (output_header w)
     = stdout w
         @ [Printf ''Timestamp|Temperature|Pressure|RelativeHumidity|GasRawReading|IAQ\<newline>'' []]"
  by (simp add: output_ready_def output_header_def printf_def Let_def printed_values_append)

end
